theory Spec2Isabelle
  imports Main "HOL-Library.Word"
begin

section \<open>The command-line front end of quics\<close>

text \<open>
  The front end (package \<open>main\<close>) declares one cobra command per operation, binds the
  commands' flags to package-level variables, and runs the selected command. Each
  command's handler (\<open>RunE\<close>) reads the package-level variables, talks to the server
  through a REST client, and prints or writes the answer.

  The model keeps the package-level variables in a record, lets each handler return the
  list of effects it performs, in order, together with its error result, and takes the
  collaborators whose code is elsewhere (the REST client, the operating system, the JSON
  encoder, the server application) as an environment of functions.
\<close>

subsection \<open>Data\<close>

type_synonym bytes = "8 word list"

text \<open>
  Errors are values. \<open>ErrShortWrite\<close> is \<open>io.ErrShortWrite\<close>; \<open>ErrUnknownFlag\<close> is
  the error of the flag parser for a flag that the command does not declare; \<open>Err msg\<close>
  is any error handed back by a collaborator.
\<close>

datatype error = ErrShortWrite | ErrUnknownFlag | Err string

text \<open>
  The package-level variables \<open>all\<close>, \<open>id\<close>, \<open>path\<close>, \<open>version\<close>, \<open>target\<close>,
  \<open>addr\<close>, \<open>port\<close>, \<open>port3\<close>, \<open>password\<close>. The suffix keeps them apart from
  the constants of the logic.
\<close>

record globals =
  all_var :: bool
  id_var :: string
  path_var :: string
  version_var :: "64 word"
  target_var :: string
  addr_var :: string
  port_var :: string
  port3_var :: string
  password_var :: string

definition initial_globals :: globals where
  "initial_globals =
     \<lparr>all_var = False, id_var = [], path_var = [], version_var = 0, target_var = [],
      addr_var = [], port_var = [], port3_var = [], password_var = []\<rparr>"

datatype command =
    rootCmd
  | startServerCmd | stopServerCmd | listenCmd | runCmd
  | passwordCmd | passwordSetCmd | passwordResetCmd
  | showCmd | showClientCmd | showDirCmd | showFileCmd | showHistoryCmd
  | removeCmd | removeClientCmd | removeDirCmd | removeFileCmd
  | downloadCmd | downloadFileCmd

text \<open>
  A flag as it stands on the command line after tokenisation, with its typed value:
  \<open>--all\<close>, \<open>--id\<close>, \<open>--path\<close>, \<open>--version\<close>, \<open>--target\<close>, \<open>--addr\<close>,
  \<open>--port\<close>, \<open>--port3\<close>, \<open>--pw\<close> (the short forms denote the same flags).
\<close>

datatype flag =
    AllOption bool
  | IDOption string
  | PathOption string
  | VersionOption "64 word"
  | TargetOption string
  | AddrOption string
  | PortOption string
  | Port3Option string
  | PasswordOption string

text \<open>
  The records of package \<open>types\<close>, with the fields that the front end reads. A prefix
  keeps apart the fields that bear the same name in two records (\<open>AfterPath\<close>,
  \<open>UUID\<close>); \<open>Metadata_ModTime\<close> is \<open>Metadata.ModTime\<close>, as it prints.
\<close>

record Client =
  UUID :: string
  Id :: int
  Ip :: string
  Root :: "string list"

record RootDirectory =
  AfterPath :: string
  Owner :: string
  Password :: string
  UUIDs :: "string list"

record File =
  F_AfterPath :: string
  RootDirKey :: string
  LatestHash :: string
  LatestSyncTimestamp :: "64 word"
  ContentsExisted :: bool
  Metadata_ModTime :: string

record FileHistory =
  BeforePath :: string
  H_AfterPath :: string
  Date :: string
  H_UUID :: string
  Timestamp :: "64 word"
  Hash :: string

text \<open>
  The effects of a handler, in the order in which they happen: lines written to the log,
  a help screen, the REST requests, the closing of the REST client, the creation of a
  file, the bytes handed to it, its closing, a formatted line on standard output, the
  calls into the server application, and the error report of cobra's \<open>Execute\<close>.
  \<open>Logged\<close> holds the operands of \<open>log.Println\<close> joined by a blank, without the
  time stamp that the logger puts in front; \<open>Written t bs\<close> says that \<open>bs\<close> was
  handed to the \<open>Write\<close> of the file \<open>t\<close>.
\<close>

datatype event =
    Logged string
  | LoggedErr error
  | HelpShown command
  | Get string
  | Post string string "bytes option"
  | ClientClosed
  | Created string
  | Written string bytes
  | FileClosed string
  | Printed string
  | AppNew string string string
  | RestServerStarted
  | AppRan
  | ExecuteFailed error

text \<open>
  The collaborators. \<open>GetRequest\<close>, \<open>PostRequest\<close> and \<open>Close\<close> are the methods of
  the REST client; \<open>os_Create\<close> and \<open>file_Write\<close> are \<open>os.Create\<close> and the
  \<open>Write\<close> of the file it returns (the count written and the error);
  \<open>json_Marshal\<close> is \<open>json.Marshal\<close> on a \<open>types.Server\<close> holding the given
  password; \<open>app_New\<close>, \<open>app_StartRestServer\<close> and \<open>app_Run\<close> are the server
  application; the four \<open>Unmarshal\<close> fields say what \<open>utils.UnmarshalRequestBody\<close>
  leaves in the element at a given index of the slice it was handed.
\<close>

record env =
  GetRequest :: "string \<Rightarrow> error + bytes"
  PostRequest :: "string \<Rightarrow> string \<Rightarrow> bytes option \<Rightarrow> error + bytes"
  Close :: "error option"
  os_Create :: "string \<Rightarrow> error option"
  file_Write :: "string \<Rightarrow> bytes \<Rightarrow> int \<times> error option"
  json_Marshal :: "string \<Rightarrow> error + bytes"
  app_New :: "string \<Rightarrow> string \<Rightarrow> string \<Rightarrow> error option"
  app_StartRestServer :: "error option"
  app_Run :: "error option"
  Unmarshal_clients :: "bytes \<Rightarrow> nat \<Rightarrow> Client \<Rightarrow> Client"
  Unmarshal_dirs :: "bytes \<Rightarrow> nat \<Rightarrow> RootDirectory \<Rightarrow> RootDirectory"
  Unmarshal_files :: "bytes \<Rightarrow> nat \<Rightarrow> File \<Rightarrow> File"
  Unmarshal_histories :: "bytes \<Rightarrow> nat \<Rightarrow> FileHistory \<Rightarrow> FileHistory"

type_synonym outcome = "event list \<times> error option"

subsection \<open>Formatting\<close>

text \<open>Decimal digits, as \<open>fmt.Sprint\<close> and the verb \<open>%d\<close> print an integer.\<close>

definition digit_char :: "nat \<Rightarrow> char" where
  "digit_char d = ''0123456789'' ! d"

fun dec :: "nat \<Rightarrow> string" where
  "dec n = (if n < 10 then [digit_char n] else dec (n div 10) @ [digit_char (n mod 10)])"

declare dec.simps [simp del]

definition Sprint_uint64 :: "64 word \<Rightarrow> string" where
  "Sprint_uint64 v = dec (unat v)"

definition Sprint_int :: "int \<Rightarrow> string" where
  "Sprint_int i = (if i < 0 then ''-'' @ dec (nat (- i)) else dec (nat i))"

definition Sprint_bool :: "bool \<Rightarrow> string" where
  "Sprint_bool b = (if b then ''true'' else ''false'')"

definition newline :: string where
  "newline = [CHR 0x0A]"

subsection \<open>Flags\<close>

text \<open>
  \<open>Run\<close> registers the flags: \<open>--addr\<close>, \<open>--port\<close>, \<open>--port3\<close> on \<open>start\<close> and
  \<open>run\<close>; \<open>--pw\<close> on \<open>password set\<close>; \<open>--all\<close> and \<open>--id\<close> on each of the four
  \<open>show\<close> and the three \<open>remove\<close> subcommands; \<open>--path\<close>, \<open>--version\<close> and
  \<open>--target\<close> on \<open>download file\<close>. No other command has a flag. (The help flag that
  cobra gives to every command is left out: with it no handler runs.)
\<close>

fun server_flag :: "flag \<Rightarrow> bool" where
  "server_flag (AddrOption _) = True"
| "server_flag (PortOption _) = True"
| "server_flag (Port3Option _) = True"
| "server_flag _ = False"

fun password_flag :: "flag \<Rightarrow> bool" where
  "password_flag (PasswordOption _) = True"
| "password_flag _ = False"

fun all_or_id_flag :: "flag \<Rightarrow> bool" where
  "all_or_id_flag (AllOption _) = True"
| "all_or_id_flag (IDOption _) = True"
| "all_or_id_flag _ = False"

fun download_flag :: "flag \<Rightarrow> bool" where
  "download_flag (PathOption _) = True"
| "download_flag (VersionOption _) = True"
| "download_flag (TargetOption _) = True"
| "download_flag _ = False"

fun binds :: "command \<Rightarrow> flag \<Rightarrow> bool" where
  "binds startServerCmd f = server_flag f"
| "binds runCmd f = server_flag f"
| "binds passwordSetCmd f = password_flag f"
| "binds showClientCmd f = all_or_id_flag f"
| "binds showDirCmd f = all_or_id_flag f"
| "binds showFileCmd f = all_or_id_flag f"
| "binds showHistoryCmd f = all_or_id_flag f"
| "binds removeClientCmd f = all_or_id_flag f"
| "binds removeDirCmd f = all_or_id_flag f"
| "binds removeFileCmd f = all_or_id_flag f"
| "binds downloadFileCmd f = download_flag f"
| "binds c f = False"

text \<open>Each flag writes the variable whose address its registration was given.\<close>

fun set_flag :: "flag \<Rightarrow> globals \<Rightarrow> globals" where
  "set_flag (AllOption b) g = g\<lparr>all_var := b\<rparr>"
| "set_flag (IDOption s) g = g\<lparr>id_var := s\<rparr>"
| "set_flag (PathOption s) g = g\<lparr>path_var := s\<rparr>"
| "set_flag (VersionOption v) g = g\<lparr>version_var := v\<rparr>"
| "set_flag (TargetOption s) g = g\<lparr>target_var := s\<rparr>"
| "set_flag (AddrOption s) g = g\<lparr>addr_var := s\<rparr>"
| "set_flag (PortOption s) g = g\<lparr>port_var := s\<rparr>"
| "set_flag (Port3Option s) g = g\<lparr>port3_var := s\<rparr>"
| "set_flag (PasswordOption s) g = g\<lparr>password_var := s\<rparr>"

text \<open>
  Parsing the flags of the executed command, left to right. A flag that the command does
  not declare stops the parse with an error, and the handler is not run.
\<close>

fun parse_flags :: "command \<Rightarrow> flag list \<Rightarrow> globals \<Rightarrow> error + globals" where
  "parse_flags c [] g = Inr g"
| "parse_flags c (f # fs) g =
     (if binds c f then parse_flags c fs (set_flag f g) else Inl ErrUnknownFlag)"

subsection \<open>Talking to the server\<close>

text \<open>
  Every handler that sends a request does it the same way: send, give up with the error
  if there is one, close the client, give up with the error if there is one, then go on
  with the response.
\<close>

definition get_then_close :: "env \<Rightarrow> string \<Rightarrow> (bytes \<Rightarrow> outcome) \<Rightarrow> outcome" where
  "get_then_close e url k =
     (case GetRequest e url of
        Inl err \<Rightarrow> ([Get url, LoggedErr err], Some err)
      | Inr response \<Rightarrow>
          (case Close e of
             Some err \<Rightarrow> ([Get url, ClientClosed, LoggedErr err], Some err)
           | None \<Rightarrow> (case k response of (evs, r) \<Rightarrow> ([Get url, ClientClosed] @ evs, r))))"

definition post_then_close :: "env \<Rightarrow> string \<Rightarrow> bytes option \<Rightarrow> outcome" where
  "post_then_close e url body =
     (case PostRequest e url ''application/json'' body of
        Inl err \<Rightarrow> ([Post url ''application/json'' body, LoggedErr err], Some err)
      | Inr response \<Rightarrow>
          (case Close e of
             Some err \<Rightarrow>
               ([Post url ''application/json'' body, ClientClosed, LoggedErr err], Some err)
           | None \<Rightarrow> ([Post url ''application/json'' body, ClientClosed], None)))"

text \<open>
  \<open>validateOptionByCommand\<close>: when neither \<open>--all\<close> nor \<open>--id\<close> is set it logs a
  message and shows the command's help. It has no result, so the caller goes on.
\<close>

definition validateOptionByCommand :: "command \<Rightarrow> globals \<Rightarrow> event list" where
  "validateOptionByCommand c g =
     (if \<not> all_var g \<and> id_var g = []
      then [Logged ''quics:  Please enter only one option'', HelpShown c]
      else [])"

text \<open>
  A slice handed to a function is handed by value: the callee shares the elements but
  not the length, so it can overwrite the elements that are there and nothing else.
  \<open>slice_after_call f xs\<close> is the caller's slice after a callee that leaves \<open>f i x\<close>
  at index \<open>i\<close>.
\<close>

definition slice_after_call :: "(nat \<Rightarrow> 'a \<Rightarrow> 'a) \<Rightarrow> 'a list \<Rightarrow> 'a list" where
  "slice_after_call f xs = map (\<lambda>(i, x). f i x) (zip [0..<length xs] xs)"

subsection \<open>The handlers\<close>

definition startServer_RunE :: "globals \<Rightarrow> env \<Rightarrow> outcome" where
  "startServer_RunE g e =
     (case app_New e (addr_var g) (port_var g) (port3_var g) of
        Some err \<Rightarrow> ([AppNew (addr_var g) (port_var g) (port3_var g)], Some err)
      | None \<Rightarrow>
          (case app_StartRestServer e of
             Some err \<Rightarrow>
               ([AppNew (addr_var g) (port_var g) (port3_var g), RestServerStarted], Some err)
           | None \<Rightarrow>
               ([AppNew (addr_var g) (port_var g) (port3_var g), RestServerStarted], None)))"

definition stopServer_RunE :: "globals \<Rightarrow> env \<Rightarrow> outcome" where
  "stopServer_RunE g e = post_then_close e ''/api/v1/server/stop'' None"

definition listen_RunE :: "globals \<Rightarrow> env \<Rightarrow> outcome" where
  "listen_RunE g e = post_then_close e ''/api/v1/server/listen'' None"

definition run_RunE :: "globals \<Rightarrow> env \<Rightarrow> outcome" where
  "run_RunE g e =
     (case app_New e (addr_var g) (port_var g) (port3_var g) of
        Some err \<Rightarrow> ([AppNew (addr_var g) (port_var g) (port3_var g)], Some err)
      | None \<Rightarrow>
          (case app_Run e of
             Some err \<Rightarrow> ([AppNew (addr_var g) (port_var g) (port3_var g), AppRan], Some err)
           | None \<Rightarrow> ([AppNew (addr_var g) (port_var g) (port3_var g), AppRan], None)))"

definition passwordSet_RunE :: "globals \<Rightarrow> env \<Rightarrow> outcome" where
  "passwordSet_RunE g e =
     (if password_var g = []
      then ([Logged ''quics:  Please enter password'', HelpShown passwordSetCmd], None)
      else
        (case json_Marshal e (password_var g) of
           Inl err \<Rightarrow> ([LoggedErr err], Some err)
         | Inr body \<Rightarrow> post_then_close e ''/api/v1/server/password/set'' (Some body)))"

definition passwordReset_RunE :: "globals \<Rightarrow> env \<Rightarrow> outcome" where
  "passwordReset_RunE g e = post_then_close e ''/api/v1/server/password/reset'' None"

text \<open>The lines of \<open>show client\<close>: one for each root directory of each client.\<close>

definition client_line :: "Client \<Rightarrow> string \<Rightarrow> string" where
  "client_line client root =
     ''*   UUID: '' @ UUID client @ ''   |   ID: '' @ Sprint_int (Id client) @
     ''   |   IP: '' @ Ip client @ ''   |   Root Directoreis: '' @ root @ ''   *'' @ newline"

definition print_clients :: "Client list \<Rightarrow> event list" where
  "print_clients clients =
     concat (map (\<lambda>client. map (\<lambda>root. Printed (client_line client root)) (Root client)) clients)"

definition showClient_RunE :: "globals \<Rightarrow> env \<Rightarrow> outcome" where
  "showClient_RunE g e =
     (case get_then_close e (''/api/v1/server/logs/clients?uuid='' @ id_var g)
        (\<lambda>response.
           (print_clients (slice_after_call (Unmarshal_clients e response) []), None))
      of (evs, r) \<Rightarrow> (validateOptionByCommand showClientCmd g @ evs, r))"

definition dir_line :: "RootDirectory \<Rightarrow> string \<Rightarrow> string" where
  "dir_line dir uuid =
     ''*   Root Directory: '' @ AfterPath dir @ ''   |   Owner: '' @ Owner dir @
     ''   |   Password: '' @ Password dir @ ''   |   UUID: '' @ uuid @ ''   *'' @ newline"

definition print_dirs :: "RootDirectory list \<Rightarrow> event list" where
  "print_dirs dirs =
     concat (map (\<lambda>dir. map (\<lambda>uuid. Printed (dir_line dir uuid)) (UUIDs dir)) dirs)"

definition showDir_RunE :: "globals \<Rightarrow> env \<Rightarrow> outcome" where
  "showDir_RunE g e =
     (case get_then_close e (''/api/v1/server/logs/directories?afterPath='' @ path_var g)
        (\<lambda>response. (print_dirs (slice_after_call (Unmarshal_dirs e response) []), None))
      of (evs, r) \<Rightarrow> (validateOptionByCommand showDirCmd g @ evs, r))"

definition file_line :: "File \<Rightarrow> string" where
  "file_line file =
     ''*   File: '' @ F_AfterPath file @ ''   |   Root Directory: '' @ RootDirKey file @
     ''   |   LatestHash: '' @ LatestHash file @
     ''   |   LatestSyncTimestamp: '' @ Sprint_uint64 (LatestSyncTimestamp file) @
     ''   |   ContentsExisted: '' @ Sprint_bool (ContentsExisted file) @
     ''   |   Metadata: '' @ Metadata_ModTime file @ ''   *'' @ newline"

definition print_files :: "File list \<Rightarrow> event list" where
  "print_files files = map (\<lambda>file. Printed (file_line file)) files"

definition showFile_RunE :: "globals \<Rightarrow> env \<Rightarrow> outcome" where
  "showFile_RunE g e =
     (case get_then_close e (''/api/v1/server/logs/files?afterPath='' @ path_var g)
        (\<lambda>response. (print_files (slice_after_call (Unmarshal_files e response) []), None))
      of (evs, r) \<Rightarrow> (validateOptionByCommand showFileCmd g @ evs, r))"

definition history_line :: "FileHistory \<Rightarrow> string" where
  "history_line history =
     ''*   Path: '' @ BeforePath history @ H_AfterPath history @
     ''   |   Date: '' @ Date history @ ''   |   UUID: '' @ H_UUID history @
     ''   |   Timestamp: '' @ Sprint_uint64 (Timestamp history) @
     ''   |   Hash: '' @ Hash history @ ''   |*'' @ newline"

definition print_histories :: "FileHistory list \<Rightarrow> event list" where
  "print_histories histories = map (\<lambda>history. Printed (history_line history)) histories"

definition showHistory_RunE :: "globals \<Rightarrow> env \<Rightarrow> outcome" where
  "showHistory_RunE g e =
     (case get_then_close e (''/api/v1/server/logs/histories?afterPath='' @ path_var g)
        (\<lambda>response.
           (print_histories (slice_after_call (Unmarshal_histories e response) []), None))
      of (evs, r) \<Rightarrow> (validateOptionByCommand showHistoryCmd g @ evs, r))"

definition removeClient_RunE :: "globals \<Rightarrow> env \<Rightarrow> outcome" where
  "removeClient_RunE g e =
     (case post_then_close e (''/api/v1/server/remove/clients?uuid='' @ id_var g) None
      of (evs, r) \<Rightarrow> (validateOptionByCommand removeClientCmd g @ evs, r))"

definition removeDir_RunE :: "globals \<Rightarrow> env \<Rightarrow> outcome" where
  "removeDir_RunE g e =
     (case post_then_close e (''/api/v1/server/remove/directories?afterPath='' @ path_var g) None
      of (evs, r) \<Rightarrow> (validateOptionByCommand removeDirCmd g @ evs, r))"

definition removeFile_RunE :: "globals \<Rightarrow> env \<Rightarrow> outcome" where
  "removeFile_RunE g e =
     (case post_then_close e (''/api/v1/server/remove/files?afterPath='' @ path_var g) None
      of (evs, r) \<Rightarrow> (validateOptionByCommand removeFileCmd g @ evs, r))"

text \<open>The address that \<open>download file\<close> asks for.\<close>

definition download_url :: "string \<Rightarrow> 64 word \<Rightarrow> string" where
  "download_url p v =
     ''/api/v1/server/download/files?afterPath='' @ p @ ''&timestamp='' @ Sprint_uint64 v"

text \<open>
  Writing the response to the target: create the file, hand it the bytes, compare the
  count with the length. The deferred close of the file happens on every way out once
  the file exists.
\<close>

definition write_target :: "env \<Rightarrow> string \<Rightarrow> bytes \<Rightarrow> outcome" where
  "write_target e t response =
     (case os_Create e t of
        Some err \<Rightarrow> ([], Some err)
      | None \<Rightarrow>
          (case file_Write e t response of
             (n, Some err) \<Rightarrow> ([Created t, Written t response, FileClosed t], Some err)
           | (n, None) \<Rightarrow>
               (if n \<noteq> int (length response)
                then ([Created t, Written t response, FileClosed t], Some ErrShortWrite)
                else ([Created t, Written t response, FileClosed t], None))))"

definition downloadFile_RunE :: "globals \<Rightarrow> env \<Rightarrow> outcome" where
  "downloadFile_RunE g e =
     (if path_var g = [] \<or> version_var g = 0 \<or> target_var g = []
      then ([Logged ''quics:  Please enter both path and version'', HelpShown downloadFileCmd],
            None)
      else get_then_close e (download_url (path_var g) (version_var g))
             (\<lambda>response. write_target e (target_var g) response))"

text \<open>
  The handler of each command. The commands that only group subcommands have no handler:
  cobra shows their help and reports no error.
\<close>

fun RunE :: "command \<Rightarrow> globals \<Rightarrow> env \<Rightarrow> outcome" where
  "RunE startServerCmd g e = startServer_RunE g e"
| "RunE stopServerCmd g e = stopServer_RunE g e"
| "RunE listenCmd g e = listen_RunE g e"
| "RunE runCmd g e = run_RunE g e"
| "RunE passwordSetCmd g e = passwordSet_RunE g e"
| "RunE passwordResetCmd g e = passwordReset_RunE g e"
| "RunE showClientCmd g e = showClient_RunE g e"
| "RunE showDirCmd g e = showDir_RunE g e"
| "RunE showFileCmd g e = showFile_RunE g e"
| "RunE showHistoryCmd g e = showHistory_RunE g e"
| "RunE removeClientCmd g e = removeClient_RunE g e"
| "RunE removeDirCmd g e = removeDir_RunE g e"
| "RunE removeFileCmd g e = removeFile_RunE g e"
| "RunE downloadFileCmd g e = downloadFile_RunE g e"
| "RunE c g e = ([HelpShown c], None)"

text \<open>
  \<open>Run\<close>: the registration of the flags leaves every variable at its default, the flags
  of the executed command are parsed, its handler runs, and the exit code is 1 exactly
  when \<open>Execute\<close> hands back an error, which it also reports.
\<close>

definition finish :: "outcome \<Rightarrow> event list \<times> int" where
  "finish out =
     (case out of
        (evs, None) \<Rightarrow> (evs, 0)
      | (evs, Some err) \<Rightarrow> (evs @ [ExecuteFailed err], 1))"

definition Run :: "command \<Rightarrow> flag list \<Rightarrow> env \<Rightarrow> event list \<times> int" where
  "Run c fs e =
     (case parse_flags c fs initial_globals of
        Inl err \<Rightarrow> ([ExecuteFailed err], 1)
      | Inr g \<Rightarrow> finish (RunE c g e))"

text \<open>The requests among the effects.\<close>

fun is_request :: "event \<Rightarrow> bool" where
  "is_request (Get _) = True"
| "is_request (Post _ _ _) = True"
| "is_request _ = False"

definition requests :: "event list \<Rightarrow> event list" where
  "requests evs = filter is_request evs"

text \<open>The lines on standard output among the effects.\<close>

fun is_printed :: "event \<Rightarrow> bool" where
  "is_printed (Printed _) = True"
| "is_printed _ = False"

subsection \<open>The repository of the sync package\<close>






subsection \<open>The History Log\<close>

text \<open>
  Modelled from the spec: the error taxonomy of the core (section 7 of the design); the
  core's code is not among the sources.
\<close>

datatype core_error =
  NotFound | AlreadyExists | Unauthorized | Conflict | StorageUnavailable | Corrupted | InvalidState



subsection \<open>Reading decimal digits back\<close>

text \<open>
  Used to show that the decimal form of a number determines the number: \<open>undec\<close>
  reads back what \<open>dec\<close> prints.
\<close>

definition is_digit :: "char \<Rightarrow> bool" where
  "is_digit c = (c \<in> set ''0123456789'')"

definition digit_val :: "char \<Rightarrow> nat" where
  "digit_val c = of_char c - 48"

definition undec :: "string \<Rightarrow> nat" where
  "undec s = foldl (\<lambda>a c. 10 * a + digit_val c) 0 s"

subsection \<open>Sample environments\<close>

text \<open>
  Test doubles for the collaborators, used to run the handlers on concrete inputs. In
  \<open>env_ok\<close> every call succeeds and every response holds \<open>sample_body\<close>;
  \<open>env_short_write\<close> differs in that the file takes one byte less than it is handed.
\<close>

definition bytes_of_string :: "string \<Rightarrow> bytes" where
  "bytes_of_string s = map (\<lambda>c. of_nat (of_char c)) s"

definition sample_body :: bytes where
  "sample_body = [104, 105, 10]"

definition env_ok :: env where
  "env_ok =
     \<lparr>GetRequest = (\<lambda>url. Inr sample_body),
      PostRequest = (\<lambda>url ct body. Inr []),
      Close = None,
      os_Create = (\<lambda>t. None),
      file_Write = (\<lambda>t bs. (int (length bs), None)),
      json_Marshal = (\<lambda>pw. Inr (bytes_of_string pw)),
      app_New = (\<lambda>a p p3. None),
      app_StartRestServer = None,
      app_Run = None,
      Unmarshal_clients = (\<lambda>body i c. c),
      Unmarshal_dirs = (\<lambda>body i d. d),
      Unmarshal_files = (\<lambda>body i f. f),
      Unmarshal_histories = (\<lambda>body i h. h)\<rparr>"

definition env_short_write :: env where
  "env_short_write = env_ok\<lparr>file_Write := (\<lambda>t bs. (int (length bs) - 1, None))\<rparr>"


definition sample_client :: Client where
  "sample_client = \<lparr>UUID = ''c1'', Id = 1, Ip = ''10.0.0.7'', Root = [''/docs'']\<rparr>"

section \<open>Properties\<close>

subsection \<open>Decimal digits and the download address\<close>

lemma below_ten: "d < 10 \<Longrightarrow> d = 0 \<or> d = 1 \<or> d = 2 \<or> d = 3 \<or> d = 4 \<or> d = 5 \<or> d = 6 \<or> d = 7 \<or> d = 8 \<or> d = (9::nat)"
  by arith

lemma is_digit_digit_char: "d < 10 \<Longrightarrow> is_digit (digit_char d)"
  by (drule below_ten) (auto simp: is_digit_def digit_char_def)

lemma digit_val_digit_char: "d < 10 \<Longrightarrow> digit_val (digit_char d) = d"
  by (drule below_ten) (auto simp: digit_val_def digit_char_def)

lemma dec_digits: "list_all is_digit (dec n)"
proof (induction n rule: dec.induct)
  case (1 n)
  show ?case
  proof (cases "n < 10")
    case True
    then show ?thesis by (subst dec.simps) (simp add: is_digit_digit_char)
  next
    case False
    with 1 show ?thesis by (subst dec.simps) (simp add: is_digit_digit_char)
  qed
qed

lemma undec_dec: "undec (dec n) = n"
proof (induction n rule: dec.induct)
  case (1 n)
  show ?case
  proof (cases "n < 10")
    case True
    then show ?thesis by (subst dec.simps) (simp add: undec_def digit_val_digit_char)
  next
    case False
    with 1 have "undec (dec (n div 10)) = n div 10" by simp
    with False show ?thesis
      by (subst dec.simps) (simp add: undec_def digit_val_digit_char)
  qed
qed

lemma dec_inj: "dec m = dec n \<Longrightarrow> m = n"
  by (metis undec_dec)

lemma Sprint_uint64_inj: "Sprint_uint64 v = Sprint_uint64 w \<Longrightarrow> v = w"
  by (auto simp: Sprint_uint64_def word_unat_eq_iff dest: dec_inj)

lemma digits_suffix_unique:
  assumes "xs @ [a] @ ds = ys @ [a] @ es" "\<not> is_digit a" "list_all is_digit ds" "list_all is_digit es"
  shows "xs = ys \<and> ds = es"
proof -
  have "takeWhile is_digit (rev ds @ a # rev xs) = rev ds"
    using assms(2,3) by (simp add: takeWhile_tail list_all_iff)
  moreover have "takeWhile is_digit (rev es @ a # rev ys) = rev es"
    using assms(2,4) by (simp add: takeWhile_tail list_all_iff)
  moreover have "rev ds @ a # rev xs = rev es @ a # rev ys"
    using arg_cong [OF assms(1), of rev] by simp
  ultimately have "ds = es" by simp
  with assms(1) show ?thesis by simp
qed

lemma download_url_inj:
  "download_url p v = download_url q w \<Longrightarrow> p = q \<and> v = w"
proof -
  assume eq: "download_url p v = download_url q w"
  let ?pre = "''/api/v1/server/download/files?afterPath=''"
  have "(?pre @ p @ ''&timestamp'') @ [CHR ''=''] @ Sprint_uint64 v =
        (?pre @ q @ ''&timestamp'') @ [CHR ''=''] @ Sprint_uint64 w"
    using eq by (simp add: download_url_def)
  then have "?pre @ p @ ''&timestamp'' = ?pre @ q @ ''&timestamp'' \<and> Sprint_uint64 v = Sprint_uint64 w"
    by (rule digits_suffix_unique) (simp_all add: is_digit_def Sprint_uint64_def dec_digits)
  then show ?thesis by (auto dest: Sprint_uint64_inj)
qed

subsection \<open>The effects of the shared steps\<close>

lemma requests_get_then_close:
  "requests (fst (get_then_close e url k)) = Get url # requests (case GetRequest e url of Inl err \<Rightarrow> [] | Inr b \<Rightarrow> (case Close e of Some err \<Rightarrow> [] | None \<Rightarrow> fst (k b)))"
  by (simp add: get_then_close_def requests_def split: sum.splits option.splits prod.splits)

lemma requests_write_target: "requests (fst (write_target e t b)) = []"
  by (simp add: write_target_def requests_def split: option.splits prod.splits)

lemma fst_finish: "requests (fst (finish out)) = requests (fst out)"
  by (cases out) (simp add: finish_def requests_def split: option.splits)

lemma no_get_in_write_target: "Get u \<notin> set (fst (write_target e t b))"
  by (simp add: write_target_def split: option.splits prod.splits)

lemma fst_get_then_close:
  "fst (get_then_close e url k) =
     (case GetRequest e url of
        Inl err \<Rightarrow> [Get url, LoggedErr err]
      | Inr b \<Rightarrow>
          (case Close e of
             Some err \<Rightarrow> [Get url, ClientClosed, LoggedErr err]
           | None \<Rightarrow> [Get url, ClientClosed] @ fst (k b)))"
  by (simp add: get_then_close_def split: sum.splits option.splits prod.splits)

lemma get_in_get_then_close:
  "Get u \<in> set (fst (get_then_close e url k)) \<Longrightarrow> (\<And>b. Get u \<notin> set (fst (k b))) \<Longrightarrow> u = url"
  by (auto simp: fst_get_then_close split: sum.splits option.splits)

lemma get_in_downloadFile_RunE:
  "Get u \<in> set (fst (downloadFile_RunE g e)) \<Longrightarrow>
     u = download_url (path_var g) (version_var g) \<and> path_var g \<noteq> [] \<and> version_var g \<noteq> 0
       \<and> target_var g \<noteq> []"
  by (auto simp: downloadFile_RunE_def no_get_in_write_target split: if_splits
      dest!: get_in_get_then_close)

lemma set_fst_finish: "Get u \<in> set (fst (finish out)) \<longleftrightarrow> Get u \<in> set (fst out)"
  by (cases out) (simp add: finish_def split: option.splits)

lemma get_in_Run_download:
  "Get u \<in> set (fst (Run downloadFileCmd fs e)) \<Longrightarrow>
     \<exists>g. parse_flags downloadFileCmd fs initial_globals = Inr g
       \<and> u = download_url (path_var g) (version_var g) \<and> path_var g \<noteq> [] \<and> version_var g \<noteq> 0
       \<and> target_var g \<noteq> []"
  by (auto simp: Run_def set_fst_finish split: sum.splits dest: get_in_downloadFile_RunE)

subsection \<open>What the flag parser leaves unchanged\<close>



lemma parse_flags_keeps_path:
  "parse_flags c fs g0 = Inr g \<Longrightarrow> (\<And>s. \<not> binds c (PathOption s)) \<Longrightarrow> path_var g = path_var g0"
proof (induction fs arbitrary: g0)
  case Nil
  then show ?case by simp
next
  case (Cons f fs)
  from Cons.prems(1) have b: "binds c f" and rest: "parse_flags c fs (set_flag f g0) = Inr g"
    by (simp_all split: if_splits)
  have "path_var (set_flag f g0) = path_var g0"
    using b Cons.prems(2) by (cases f) simp_all
  with Cons.IH [OF rest Cons.prems(2)] show ?case by simp
qed







lemma parse_flags_ok: "(\<exists>g. parse_flags c fs g0 = Inr g) \<longleftrightarrow> list_all (binds c) fs"
  by (induction fs arbitrary: g0) auto

lemma parse_flags_fail: "\<not> list_all (binds c) fs \<Longrightarrow> parse_flags c fs g0 = Inl ErrUnknownFlag"
  by (induction fs arbitrary: g0) auto

subsection \<open>The requests of the handlers\<close>

lemma slice_after_call_Nil: "slice_after_call f [] = []"
  by (simp add: slice_after_call_def)

lemma requests_append: "requests (xs @ ys) = requests xs @ requests ys"
  by (simp add: requests_def)

lemma requests_validate: "requests (validateOptionByCommand c g) = []"
  by (simp add: validateOptionByCommand_def requests_def)

lemma requests_post_then_close:
  "requests (fst (post_then_close e url body)) = [Post url ''application/json'' body]"
  by (simp add: post_then_close_def requests_def split: sum.splits option.splits)

lemma requests_Nil: "requests [] = []"
  by (simp add: requests_def)

lemma requests_get_no_more:
  "(\<And>b. requests (fst (k b)) = []) \<Longrightarrow> requests (fst (get_then_close e url k)) = [Get url]"
  by (simp add: requests_get_then_close requests_Nil split: sum.splits option.splits)

lemma requests_showClient:
  "requests (fst (showClient_RunE g e)) = [Get (''/api/v1/server/logs/clients?uuid='' @ id_var g)]"
  by (simp add: showClient_RunE_def split_beta requests_append requests_validate
      requests_get_no_more slice_after_call_Nil print_clients_def requests_Nil)

lemma requests_showDir:
  "requests (fst (showDir_RunE g e)) =
     [Get (''/api/v1/server/logs/directories?afterPath='' @ path_var g)]"
  by (simp add: showDir_RunE_def split_beta requests_append requests_validate
      requests_get_no_more slice_after_call_Nil print_dirs_def requests_Nil)

lemma requests_showFile:
  "requests (fst (showFile_RunE g e)) =
     [Get (''/api/v1/server/logs/files?afterPath='' @ path_var g)]"
  by (simp add: showFile_RunE_def split_beta requests_append requests_validate
      requests_get_no_more slice_after_call_Nil print_files_def requests_Nil)

lemma requests_showHistory:
  "requests (fst (showHistory_RunE g e)) =
     [Get (''/api/v1/server/logs/histories?afterPath='' @ path_var g)]"
  by (simp add: showHistory_RunE_def split_beta requests_append requests_validate
      requests_get_no_more slice_after_call_Nil print_histories_def requests_Nil)

lemma requests_removeClient:
  "requests (fst (removeClient_RunE g e)) =
     [Post (''/api/v1/server/remove/clients?uuid='' @ id_var g) ''application/json'' None]"
  by (simp add: removeClient_RunE_def split_beta requests_append requests_validate
      requests_post_then_close)

lemma requests_removeDir:
  "requests (fst (removeDir_RunE g e)) =
     [Post (''/api/v1/server/remove/directories?afterPath='' @ path_var g) ''application/json''
        None]"
  by (simp add: removeDir_RunE_def split_beta requests_append requests_validate
      requests_post_then_close)

lemma requests_removeFile:
  "requests (fst (removeFile_RunE g e)) =
     [Post (''/api/v1/server/remove/files?afterPath='' @ path_var g) ''application/json'' None]"
  by (simp add: removeFile_RunE_def split_beta requests_append requests_validate
      requests_post_then_close)

lemma requests_Run:
  "requests (fst (Run c fs e)) =
     (case parse_flags c fs initial_globals of
        Inl err \<Rightarrow> []
      | Inr g \<Rightarrow> requests (fst (RunE c g e)))"
  by (simp add: Run_def fst_finish requests_Nil split: sum.splits) (simp add: requests_def)

lemma requests_Run_without_path:
  assumes "\<And>g. path_var g = [] \<Longrightarrow> requests (fst (RunE c g e)) = R"
    and "\<And>s. \<not> binds c (PathOption s)"
  shows "requests (fst (Run c fs e)) = (if list_all (binds c) fs then R else [])"
proof (cases "list_all (binds c) fs")
  case True
  then obtain g where g: "parse_flags c fs initial_globals = Inr g"
    using parse_flags_ok [of c fs initial_globals] by blast
  from parse_flags_keeps_path [OF g assms(2)] have "path_var g = []"
    by (simp add: initial_globals_def)
  with assms(1) g True show ?thesis by (simp add: requests_Run)
next
  case False
  then show ?thesis by (simp add: requests_Run parse_flags_fail)
qed

lemma get_then_close_ok:
  "GetRequest e url = Inr b \<Longrightarrow> Close e = None \<Longrightarrow>
     get_then_close e url k = (Get url # ClientClosed # fst (k b), snd (k b))"
  by (simp add: get_then_close_def split: prod.splits)

lemma post_then_close_ok:
  "PostRequest e url ''application/json'' body = Inr b \<Longrightarrow> Close e = None \<Longrightarrow>
     post_then_close e url body = ([Post url ''application/json'' body, ClientClosed], None)"
  by (simp add: post_then_close_def)

lemma validate_initial:
  "validateOptionByCommand c initial_globals =
     [Logged ''quics:  Please enter only one option'', HelpShown c]"
  by (simp add: validateOptionByCommand_def initial_globals_def)

lemma validate_all:
  "validateOptionByCommand c (g\<lparr>all_var := True\<rparr>) = []"
  by (simp add: validateOptionByCommand_def)

lemma finish_Cons: "finish (ev # evs, r) = (case finish (evs, r) of (evs', code) \<Rightarrow> (ev # evs', code))"
  by (simp add: finish_def split: option.splits)

lemma Run_without_option:
  assumes "c \<in> {showClientCmd, showDirCmd, showFileCmd, showHistoryCmd, removeClientCmd,
                 removeDirCmd, removeFileCmd}"
  shows "Run c [] e =
           (case Run c [AllOption True] e of
              (evs, code) \<Rightarrow>
                (Logged ''quics:  Please enter only one option'' # HelpShown c # evs, code))"
proof -
  have "RunE c initial_globals e =
      (case RunE c (initial_globals\<lparr>all_var := True\<rparr>) e of
         (evs, r) \<Rightarrow> (Logged ''quics:  Please enter only one option'' # HelpShown c # evs, r))"
    using assms
    by (auto simp: showClient_RunE_def showDir_RunE_def showFile_RunE_def showHistory_RunE_def
        removeClient_RunE_def removeDir_RunE_def removeFile_RunE_def validate_initial
        validate_all split: prod.splits)
  then show ?thesis
    using assms by (auto simp: Run_def finish_Cons split: prod.splits)
qed

lemma Run_without_option_ok:
  assumes "c \<in> {showClientCmd, showDirCmd, showFileCmd, showHistoryCmd, removeClientCmd,
                 removeDirCmd, removeFileCmd}"
    and get: "\<forall>u. \<exists>b. GetRequest e u = Inr b"
    and post: "\<forall>u ct bd. \<exists>b. PostRequest e u ct bd = Inr b"
    and close: "Close e = None"
  shows "snd (Run c [] e) = 0"
proof -
  have g: "\<And>url k. snd (get_then_close e url k) = snd (k (projr (GetRequest e url)))"
  proof -
    fix url k
    from get obtain b where "GetRequest e url = Inr b" by blast
    with close show "snd (get_then_close e url k) = snd (k (projr (GetRequest e url)))"
      by (simp add: get_then_close_ok)
  qed
  have p: "\<And>url body. snd (post_then_close e url body) = None"
  proof -
    fix url body
    from post obtain b where "PostRequest e url ''application/json'' body = Inr b" by blast
    with close show "snd (post_then_close e url body) = None"
      by (simp add: post_then_close_ok)
  qed
  have "snd (RunE c initial_globals e) = None"
    using assms(1)
    by (auto simp: showClient_RunE_def showDir_RunE_def showFile_RunE_def showHistory_RunE_def
        removeClient_RunE_def removeDir_RunE_def removeFile_RunE_def split_beta g p)
  then show ?thesis
    by (cases "RunE c initial_globals e") (simp add: Run_def finish_def)
qed

subsection \<open>Download\<close>

text \<open>
  C9: when the path is empty, the version is 0 or the target is empty, \<open>download file\<close>
  logs a message, shows its help and does nothing else: no request is sent, no file is
  created, and the exit code is 0. Whatever the flags, no request for version 0 is ever
  among the effects of the command.
\<close>

theorem download_missing_argument:
  "(parse_flags downloadFileCmd fs initial_globals = Inr g
      \<and> (path_var g = [] \<or> version_var g = 0 \<or> target_var g = [])
    \<longrightarrow> Run downloadFileCmd fs e =
          ([Logged ''quics:  Please enter both path and version'', HelpShown downloadFileCmd], 0))
   \<and> Get (download_url p 0) \<notin> set (fst (Run downloadFileCmd fs e))"
proof (intro conjI impI notI)
  assume "parse_flags downloadFileCmd fs initial_globals = Inr g
      \<and> (path_var g = [] \<or> version_var g = 0 \<or> target_var g = [])"
  then show "Run downloadFileCmd fs e =
          ([Logged ''quics:  Please enter both path and version'', HelpShown downloadFileCmd], 0)"
    by (auto simp: Run_def downloadFile_RunE_def finish_def)
next
  assume "Get (download_url p 0) \<in> set (fst (Run downloadFileCmd fs e))"
  from get_in_Run_download [OF this]
  show False by (auto dest!: download_url_inj)
qed

theorem download_missing_argument_witness:
  "Run downloadFileCmd [PathOption ''/docs/notes.txt'', VersionOption 0, TargetOption ''notes.txt'']
     env_ok =
     ([Logged ''quics:  Please enter both path and version'', HelpShown downloadFileCmd], 0)"
  using download_missing_argument
    [of "[PathOption ''/docs/notes.txt'', VersionOption 0, TargetOption ''notes.txt'']"
        "initial_globals\<lparr>path_var := ''/docs/notes.txt'', version_var := 0,
           target_var := ''notes.txt''\<rparr>" env_ok]
  by (simp add: initial_globals_def)

text \<open>
  C1: with a path, a version other than 0 and a target, \<open>download file\<close> sends exactly
  one request, a GET for the address built from that path and that version, and the
  address determines the pair. When the request, the closing of the client and the
  creation of the file succeed, the bytes handed to the target file are the response,
  unchanged; the command succeeds when the file reports the full length written, fails
  with \<open>ErrShortWrite\<close> when it reports another count, and fails with the file's error
  when it reports one.
\<close>

theorem download_writes_response:
  assumes "parse_flags downloadFileCmd fs initial_globals = Inr g"
    and "path_var g \<noteq> []" and "version_var g \<noteq> 0" and "target_var g \<noteq> []"
  shows "requests (fst (Run downloadFileCmd fs e)) =
           [Get (download_url (path_var g) (version_var g))]
     \<and> (\<forall>p v. download_url p v = download_url (path_var g) (version_var g)
            \<longrightarrow> p = path_var g \<and> v = version_var g)
     \<and> (\<forall>body n werr.
           GetRequest e (download_url (path_var g) (version_var g)) = Inr body
           \<and> Close e = None \<and> os_Create e (target_var g) = None
           \<and> file_Write e (target_var g) body = (n, werr)
         \<longrightarrow> Run downloadFileCmd fs e =
               finish
                 ([Get (download_url (path_var g) (version_var g)), ClientClosed,
                   Created (target_var g), Written (target_var g) body, FileClosed (target_var g)],
                  (case werr of
                     Some err \<Rightarrow> Some err
                   | None \<Rightarrow> if n = int (length body) then None else Some ErrShortWrite)))"
proof (intro conjI allI impI)
  show "requests (fst (Run downloadFileCmd fs e)) =
           [Get (download_url (path_var g) (version_var g))]"
    using assms
    by (simp add: Run_def downloadFile_RunE_def fst_finish requests_get_then_close
        requests_write_target split: sum.splits option.splits)
      (simp add: requests_def)
next
  fix p v
  assume "download_url p v = download_url (path_var g) (version_var g)"
  then show "p = path_var g" and "v = version_var g"
    by (auto dest: download_url_inj)
next
  fix body n werr
  assume "GetRequest e (download_url (path_var g) (version_var g)) = Inr body
           \<and> Close e = None \<and> os_Create e (target_var g) = None
           \<and> file_Write e (target_var g) body = (n, werr)"
  with assms show "Run downloadFileCmd fs e =
               finish
                 ([Get (download_url (path_var g) (version_var g)), ClientClosed,
                   Created (target_var g), Written (target_var g) body, FileClosed (target_var g)],
                  (case werr of
                     Some err \<Rightarrow> Some err
                   | None \<Rightarrow> if n = int (length body) then None else Some ErrShortWrite))"
    by (simp add: Run_def downloadFile_RunE_def get_then_close_def write_target_def
        split: option.splits)
qed

lemma sample_download_url:
  "download_url ''/docs/notes.txt'' 100 =
     ''/api/v1/server/download/files?afterPath=/docs/notes.txt&timestamp=100''"
  by (simp add: download_url_def Sprint_uint64_def dec.simps digit_char_def)

theorem download_writes_response_witness:
  "Run downloadFileCmd
     [PathOption ''/docs/notes.txt'', VersionOption 100, TargetOption ''notes.txt''] env_ok =
     ([Get ''/api/v1/server/download/files?afterPath=/docs/notes.txt&timestamp=100'',
       ClientClosed, Created ''notes.txt'', Written ''notes.txt'' sample_body,
       FileClosed ''notes.txt''], 0)
   \<and> Run downloadFileCmd
     [PathOption ''/docs/notes.txt'', VersionOption 100, TargetOption ''notes.txt'']
     env_short_write =
     ([Get ''/api/v1/server/download/files?afterPath=/docs/notes.txt&timestamp=100'',
       ClientClosed, Created ''notes.txt'', Written ''notes.txt'' sample_body,
       FileClosed ''notes.txt'', ExecuteFailed ErrShortWrite], 1)"
proof -
  let ?fs = "[PathOption ''/docs/notes.txt'', VersionOption 100, TargetOption ''notes.txt'']"
  let ?g = "initial_globals\<lparr>path_var := ''/docs/notes.txt'', version_var := 100,
              target_var := ''notes.txt''\<rparr>"
  have parse: "parse_flags downloadFileCmd ?fs initial_globals = Inr ?g"
    by simp
  have p: "path_var ?g \<noteq> []" and v: "version_var ?g \<noteq> 0" and t: "target_var ?g \<noteq> []"
    by simp_all
  note ok = download_writes_response [OF parse p v t, of env_ok, THEN conjunct2, THEN conjunct2,
      rule_format, of sample_body "int (length sample_body)" None]
  note short = download_writes_response [OF parse p v t, of env_short_write, THEN conjunct2,
      THEN conjunct2, rule_format, of sample_body "int (length sample_body) - 1" None]
  show ?thesis
    using ok short
    by (simp add: env_ok_def env_short_write_def finish_def sample_download_url)
qed






subsection \<open>Show and remove\<close>

text \<open>
  C10: \<open>show dir\<close>, \<open>show file\<close>, \<open>show history\<close>, \<open>remove dir\<close> and
  \<open>remove file\<close> build their address from the variable \<open>path\<close>, which none of their
  flags writes. So whatever flags the command line holds, either a flag is not one of
  the command's and nothing is sent, or the one request that is sent carries an empty
  identifier: the value of \<open>--id\<close> does not reach the server.
\<close>

theorem id_flag_never_sent:
  "requests (fst (Run showDirCmd fs e)) =
     (if list_all (binds showDirCmd) fs
      then [Get ''/api/v1/server/logs/directories?afterPath=''] else [])
   \<and> requests (fst (Run showFileCmd fs e)) =
     (if list_all (binds showFileCmd) fs
      then [Get ''/api/v1/server/logs/files?afterPath=''] else [])
   \<and> requests (fst (Run showHistoryCmd fs e)) =
     (if list_all (binds showHistoryCmd) fs
      then [Get ''/api/v1/server/logs/histories?afterPath=''] else [])
   \<and> requests (fst (Run removeDirCmd fs e)) =
     (if list_all (binds removeDirCmd) fs
      then [Post ''/api/v1/server/remove/directories?afterPath='' ''application/json'' None]
      else [])
   \<and> requests (fst (Run removeFileCmd fs e)) =
     (if list_all (binds removeFileCmd) fs
      then [Post ''/api/v1/server/remove/files?afterPath='' ''application/json'' None]
      else [])"
proof (intro conjI)
  show "requests (fst (Run showDirCmd fs e)) =
     (if list_all (binds showDirCmd) fs
      then [Get ''/api/v1/server/logs/directories?afterPath=''] else [])"
    by (rule requests_Run_without_path) (simp_all add: requests_showDir)
  show "requests (fst (Run showFileCmd fs e)) =
     (if list_all (binds showFileCmd) fs
      then [Get ''/api/v1/server/logs/files?afterPath=''] else [])"
    by (rule requests_Run_without_path) (simp_all add: requests_showFile)
  show "requests (fst (Run showHistoryCmd fs e)) =
     (if list_all (binds showHistoryCmd) fs
      then [Get ''/api/v1/server/logs/histories?afterPath=''] else [])"
    by (rule requests_Run_without_path) (simp_all add: requests_showHistory)
  show "requests (fst (Run removeDirCmd fs e)) =
     (if list_all (binds removeDirCmd) fs
      then [Post ''/api/v1/server/remove/directories?afterPath='' ''application/json'' None]
      else [])"
    by (rule requests_Run_without_path) (simp_all add: requests_removeDir)
  show "requests (fst (Run removeFileCmd fs e)) =
     (if list_all (binds removeFileCmd) fs
      then [Post ''/api/v1/server/remove/files?afterPath='' ''application/json'' None]
      else [])"
    by (rule requests_Run_without_path) (simp_all add: requests_removeFile)
qed

text \<open>
  C3: what the code does where the claim asks for distinguishable requests.
  \<open>remove dir --id /docs\<close> behaves exactly as \<open>remove dir --all\<close>, and
  \<open>remove file --id /docs/notes.txt\<close> exactly as \<open>remove file --all\<close>: both forms
  send the same request, with an empty identifier. \<open>remove client\<close>, which builds its
  address from \<open>id\<close>, does tell the two forms apart.
\<close>

theorem remove_dir_and_file_ignore_id:
  "Run removeDirCmd [IDOption ''/docs''] e = Run removeDirCmd [AllOption True] e
   \<and> Run removeFileCmd [IDOption ''/docs/notes.txt''] e = Run removeFileCmd [AllOption True] e
   \<and> requests (fst (Run removeDirCmd [IDOption ''/docs''] e)) =
       [Post ''/api/v1/server/remove/directories?afterPath='' ''application/json'' None]
   \<and> requests (fst (Run removeFileCmd [IDOption ''/docs/notes.txt''] e)) =
       [Post ''/api/v1/server/remove/files?afterPath='' ''application/json'' None]
   \<and> requests (fst (Run removeClientCmd [IDOption ''c1''] e)) =
       [Post ''/api/v1/server/remove/clients?uuid=c1'' ''application/json'' None]
   \<and> requests (fst (Run removeClientCmd [AllOption True] e)) =
       [Post ''/api/v1/server/remove/clients?uuid='' ''application/json'' None]"
  by (simp add: requests_Run requests_removeDir requests_removeFile requests_removeClient
      initial_globals_def)
    (simp add: Run_def removeDir_RunE_def removeFile_RunE_def validateOptionByCommand_def
      initial_globals_def)

lemma printed_finish: "filter is_printed (fst (finish out)) = filter is_printed (fst out)"
  by (cases out) (simp add: finish_def split: option.splits)

lemma printed_showClient: "filter is_printed (fst (showClient_RunE g e)) = []"
  by (simp add: showClient_RunE_def split_beta fst_get_then_close slice_after_call_Nil
      print_clients_def validateOptionByCommand_def split: sum.splits option.splits)

lemma sample_client_line:
  "print_clients [sample_client] =
     [Printed (''*   UUID: c1   |   ID: 1   |   IP: 10.0.0.7   |   Root Directoreis: /docs   *''
        @ newline)]"
  by (simp add: print_clients_def sample_client_def client_line_def Sprint_int_def dec.simps
      digit_char_def)

text \<open>
  C5: what the code does where the claim asks for a line per client. \<open>show client\<close>
  prints no line at all, whatever the flags and whatever the server answers: the slice
  that the loops range over is still empty after the call that should have filled it.
  The loops themselves would print one line for the sample client, and no line for a
  client without root directory.
\<close>

theorem show_client_prints_nothing:
  "filter is_printed (fst (Run showClientCmd fs e)) = []
   \<and> print_clients [sample_client] =
     [Printed (''*   UUID: c1   |   ID: 1   |   IP: 10.0.0.7   |   Root Directoreis: /docs   *''
        @ newline)]
   \<and> print_clients [sample_client\<lparr>Root := []\<rparr>] = []"
proof (intro conjI)
  show "filter is_printed (fst (Run showClientCmd fs e)) = []"
    by (simp add: Run_def printed_finish printed_showClient split: sum.splits)
  show "print_clients [sample_client] =
     [Printed (''*   UUID: c1   |   ID: 1   |   IP: 10.0.0.7   |   Root Directoreis: /docs   *''
        @ newline)]"
    by (rule sample_client_line)
  show "print_clients [sample_client\<lparr>Root := []\<rparr>] = []"
    by (simp add: print_clients_def)
qed

text \<open>
  C8: a \<open>show\<close> or \<open>remove\<close> subcommand run with neither \<open>--all\<close> nor \<open>--id\<close>
  still sends its request, with an empty identifier. Its run is the run of the same
  command with \<open>--all\<close>, preceded by the logged message and the help screen: the
  validation aborts nothing. In particular the exit code is 0 whenever the request and
  the closing of the client succeed.
\<close>

theorem validation_does_not_abort:
  "requests (fst (Run showClientCmd [] e)) = [Get ''/api/v1/server/logs/clients?uuid='']
   \<and> requests (fst (Run showDirCmd [] e)) = [Get ''/api/v1/server/logs/directories?afterPath='']
   \<and> requests (fst (Run showFileCmd [] e)) = [Get ''/api/v1/server/logs/files?afterPath='']
   \<and> requests (fst (Run showHistoryCmd [] e)) = [Get ''/api/v1/server/logs/histories?afterPath='']
   \<and> requests (fst (Run removeClientCmd [] e)) =
       [Post ''/api/v1/server/remove/clients?uuid='' ''application/json'' None]
   \<and> requests (fst (Run removeDirCmd [] e)) =
       [Post ''/api/v1/server/remove/directories?afterPath='' ''application/json'' None]
   \<and> requests (fst (Run removeFileCmd [] e)) =
       [Post ''/api/v1/server/remove/files?afterPath='' ''application/json'' None]
   \<and> (c \<in> {showClientCmd, showDirCmd, showFileCmd, showHistoryCmd, removeClientCmd,
             removeDirCmd, removeFileCmd} \<longrightarrow>
        Run c [] e =
          (case Run c [AllOption True] e of
             (evs, code) \<Rightarrow>
               (Logged ''quics:  Please enter only one option'' # HelpShown c # evs, code))
        \<and> ((\<forall>u. \<exists>b. GetRequest e u = Inr b) \<and> (\<forall>u ct bd. \<exists>b. PostRequest e u ct bd = Inr b)
             \<and> Close e = None \<longrightarrow> snd (Run c [] e) = 0))"
proof -
  have reqs: "requests (fst (Run showClientCmd [] e)) = [Get ''/api/v1/server/logs/clients?uuid='']"
    "requests (fst (Run showDirCmd [] e)) = [Get ''/api/v1/server/logs/directories?afterPath='']"
    "requests (fst (Run showFileCmd [] e)) = [Get ''/api/v1/server/logs/files?afterPath='']"
    "requests (fst (Run showHistoryCmd [] e)) = [Get ''/api/v1/server/logs/histories?afterPath='']"
    "requests (fst (Run removeClientCmd [] e)) =
       [Post ''/api/v1/server/remove/clients?uuid='' ''application/json'' None]"
    "requests (fst (Run removeDirCmd [] e)) =
       [Post ''/api/v1/server/remove/directories?afterPath='' ''application/json'' None]"
    "requests (fst (Run removeFileCmd [] e)) =
       [Post ''/api/v1/server/remove/files?afterPath='' ''application/json'' None]"
    by (simp_all add: requests_Run requests_showClient requests_showDir requests_showFile
        requests_showHistory requests_removeClient requests_removeDir requests_removeFile
        initial_globals_def)
  show ?thesis
    using reqs Run_without_option [of c e] Run_without_option_ok [of c e]
    by blast
qed

theorem validation_does_not_abort_witness:
  "Run showClientCmd [] env_ok =
     ([Logged ''quics:  Please enter only one option'', HelpShown showClientCmd,
       Get ''/api/v1/server/logs/clients?uuid='', ClientClosed], 0)
   \<and> Run removeDirCmd [] env_ok =
     ([Logged ''quics:  Please enter only one option'', HelpShown removeDirCmd,
       Post ''/api/v1/server/remove/directories?afterPath='' ''application/json'' None,
       ClientClosed], 0)"
proof -
  have ok: "(\<forall>u. \<exists>b. GetRequest env_ok u = Inr b)
      \<and> (\<forall>u ct bd. \<exists>b. PostRequest env_ok u ct bd = Inr b) \<and> Close env_ok = None"
    by (simp add: env_ok_def)
  have m1: "showClientCmd \<in> {showClientCmd, showDirCmd, showFileCmd, showHistoryCmd,
      removeClientCmd, removeDirCmd, removeFileCmd}"
    and m2: "removeDirCmd \<in> {showClientCmd, showDirCmd, showFileCmd, showHistoryCmd,
      removeClientCmd, removeDirCmd, removeFileCmd}"
    by simp_all
  note t = validation_does_not_abort [THEN conjunct2, THEN conjunct2, THEN conjunct2,
      THEN conjunct2, THEN conjunct2, THEN conjunct2, THEN conjunct2]
  from t [of showClientCmd env_ok, THEN mp, OF m1] ok
  have a: "Run showClientCmd [] env_ok =
          (case Run showClientCmd [AllOption True] env_ok of
             (evs, code) \<Rightarrow>
               (Logged ''quics:  Please enter only one option'' # HelpShown showClientCmd # evs,
                code))"
    and a0: "snd (Run showClientCmd [] env_ok) = 0"
    by blast+
  from t [of removeDirCmd env_ok, THEN mp, OF m2] ok
  have b: "Run removeDirCmd [] env_ok =
          (case Run removeDirCmd [AllOption True] env_ok of
             (evs, code) \<Rightarrow>
               (Logged ''quics:  Please enter only one option'' # HelpShown removeDirCmd # evs,
                code))"
    and b0: "snd (Run removeDirCmd [] env_ok) = 0"
    by blast+
  have "Run showClientCmd [AllOption True] env_ok =
      ([Get ''/api/v1/server/logs/clients?uuid='', ClientClosed], 0)"
    by (simp add: Run_def showClient_RunE_def get_then_close_def validateOptionByCommand_def
        initial_globals_def env_ok_def slice_after_call_Nil print_clients_def finish_def)
  moreover have "Run removeDirCmd [AllOption True] env_ok =
      ([Post ''/api/v1/server/remove/directories?afterPath='' ''application/json'' None,
        ClientClosed], 0)"
    by (simp add: Run_def removeDir_RunE_def post_then_close_def validateOptionByCommand_def
        initial_globals_def env_ok_def finish_def)
  ultimately show ?thesis
    using a b by simp
qed

subsection \<open>Password\<close>

text \<open>
  Against C4 as stated: the password commands cannot name a root directory. A path or
  an identifier on the command line is rejected before anything is sent, the request of
  \<open>password set\<close> holds the password and nothing else, the request of
  \<open>password reset\<close> holds nothing, and the handler does not look at the variable
  \<open>path\<close>.
\<close>

theorem password_set_takes_no_path:
  "Run passwordSetCmd [PasswordOption ''s3cret'', PathOption ''/docs''] env_ok =
     ([ExecuteFailed ErrUnknownFlag], 1)
   \<and> Run passwordSetCmd [PasswordOption ''s3cret'', IDOption ''/docs''] env_ok =
     ([ExecuteFailed ErrUnknownFlag], 1)
   \<and> Run passwordResetCmd [PathOption ''/docs''] env_ok = ([ExecuteFailed ErrUnknownFlag], 1)
   \<and> Run passwordSetCmd [PasswordOption ''s3cret''] env_ok =
     ([Post ''/api/v1/server/password/set'' ''application/json''
         (Some (bytes_of_string ''s3cret'')), ClientClosed], 0)
   \<and> Run passwordResetCmd [] env_ok =
     ([Post ''/api/v1/server/password/reset'' ''application/json'' None, ClientClosed], 0)
   \<and> RunE passwordSetCmd
        (initial_globals\<lparr>password_var := ''s3cret'', path_var := ''/docs''\<rparr>) env_ok =
      RunE passwordSetCmd
        (initial_globals\<lparr>password_var := ''s3cret'', path_var := ''/other''\<rparr>) env_ok"
  by (simp add: Run_def passwordSet_RunE_def passwordReset_RunE_def post_then_close_def
      initial_globals_def env_ok_def finish_def)

text \<open>
  C4, amended: setting and resetting the password address the server as a whole.
  \<open>password set\<close> sends at most one request, a POST to the fixed address
  \<open>/api/v1/server/password/set\<close> whose body is the encoding of the password alone;
  \<open>password reset\<close> sends one POST to \<open>/api/v1/server/password/reset\<close> with no body.
  The behaviour of \<open>password set\<close> depends on no variable but \<open>password\<close>, that of
  \<open>password reset\<close> on none, and neither command declares a flag for a path or an
  identifier. So the requests name no root directory and carry no membership data.
\<close>

theorem password_commands_server_wide:
  "requests (fst (RunE passwordSetCmd g e)) =
     (if password_var g = [] then []
      else (case json_Marshal e (password_var g) of
              Inl err \<Rightarrow> []
            | Inr body \<Rightarrow>
                [Post ''/api/v1/server/password/set'' ''application/json'' (Some body)]))
   \<and> requests (fst (RunE passwordResetCmd g e)) =
       [Post ''/api/v1/server/password/reset'' ''application/json'' None]
   \<and> RunE passwordSetCmd g e =
       RunE passwordSetCmd (initial_globals\<lparr>password_var := password_var g\<rparr>) e
   \<and> RunE passwordResetCmd g e = RunE passwordResetCmd initial_globals e
   \<and> \<not> binds passwordSetCmd (PathOption p) \<and> \<not> binds passwordSetCmd (IDOption i)
   \<and> \<not> binds passwordResetCmd f"
proof (intro conjI)
  show "requests (fst (RunE passwordSetCmd g e)) =
     (if password_var g = [] then []
      else (case json_Marshal e (password_var g) of
              Inl err \<Rightarrow> []
            | Inr body \<Rightarrow>
                [Post ''/api/v1/server/password/set'' ''application/json'' (Some body)]))"
    by (simp add: passwordSet_RunE_def requests_post_then_close split: sum.splits)
      (simp add: requests_def)
  show "requests (fst (RunE passwordResetCmd g e)) =
       [Post ''/api/v1/server/password/reset'' ''application/json'' None]"
    by (simp add: passwordReset_RunE_def requests_post_then_close)
  show "RunE passwordSetCmd g e =
       RunE passwordSetCmd (initial_globals\<lparr>password_var := password_var g\<rparr>) e"
    by (simp add: passwordSet_RunE_def)
  show "RunE passwordResetCmd g e = RunE passwordResetCmd initial_globals e"
    by (simp add: passwordReset_RunE_def)
qed simp_all

subsection \<open>The package-level variables\<close>




subsection \<open>The repository\<close>



end
